theory Spec2Isabelle
  imports Complex_Main
begin

section \<open>The image search demo client: data model\<close>

text \<open>
  The development follows the latest revision of \<^verbatim>\<open>frontend/src/App.tsx\<close>
  (the one with the schema drawer and the \<^verbatim>\<open>showInfo\<close> toggle). The earlier
  revision of that file has the same \<^verbatim>\<open>search\<close>, \<^verbatim>\<open>Settings\<close> and
  \<^verbatim>\<open>triggerSearch\<close>; it lacks \<^verbatim>\<open>showInfo\<close>, the schema drawer and the
  \<^verbatim>\<open>defaultIsOpen\<close> argument of the settings drawer. The first revision, with plain
  inputs held in \<^verbatim>\<open>useState\<close> cells and without \<^verbatim>\<open>Settings\<close> or local storage,
  is not modelled.

  A JavaScript value stored in a result record is a string, a number, \<^verbatim>\<open>null\<close> or
  \<^verbatim>\<open>undefined\<close>. Numbers come out of \<^verbatim>\<open>JSON.parse\<close>, so they are finite and
  are modelled as reals; no function below computes with them.
\<close>

datatype jsval = JString string | JNumber real | JNull | JUndefined

text \<open>\<^verbatim>\<open>interface SearchQuery\<close>: the two optional members are options.\<close>

record SearchQuery =
  starpoint_api_key :: string
  starpoint_collection_name :: string
  query_to_embed :: "string option"
  query_sql :: "string option"

text \<open>
  One element of \<^verbatim>\<open>QueryResponse["results"]\<close>: the reserved members \<^verbatim>\<open>__id\<close>
  and \<^verbatim>\<open>__distance\<close>, and the index signature as an association list in the order
  of the JSON object.
\<close>

record result =
  result_id :: string
  result_distance :: "real option"
  result_fields :: "(string \<times> jsval) list"

text \<open>
  \<^verbatim>\<open>interface QueryResponse\<close>. The member \<^verbatim>\<open>results\<close> is required by the
  interface, but the value is whatever \<^verbatim>\<open>response.json()\<close> parsed and the view
  tests \<^verbatim>\<open>results !== undefined\<close>, so \<open>None\<close> stands for a body without it.
\<close>

record QueryResponse =
  collection_id :: string
  result_count :: real
  response_sql :: "string option"
  response_results :: "result list option"

text \<open>What \<^verbatim>\<open>search\<close> throws: \<^verbatim>\<open>fetch\<close> rejecting or the body failing to parse.\<close>

datatype Error = Error (message: string)

record Config =
  apiKey :: string
  collectionName :: string

definition API_KEY_KEY :: string where
  "API_KEY_KEY = ''api_key''"

definition COLLECTION_NAME_KEY :: string where
  "COLLECTION_NAME_KEY = ''collection_name''"

text \<open>The state of a mounted \<^verbatim>\<open>Settings\<close> component (three \<^verbatim>\<open>useState\<close> cells).\<close>

record Settings_state =
  settings_collectionName :: string
  settings_apiKey :: string
  settings_show :: bool

text \<open>
  The values captured by the memoised \<^verbatim>\<open>triggerSearch\<close>: the callback closes over
  \<^verbatim>\<open>query\<close> and \<^verbatim>\<open>sql\<close> of the render that created it, and reads
  \<^verbatim>\<open>config.current\<close> only when it runs.
\<close>

record Closure =
  closure_query :: string
  closure_sql :: string

text \<open>
  The state of \<^verbatim>\<open>App\<close>: the \<^verbatim>\<open>config\<close> ref, the \<^verbatim>\<open>useState\<close> cells, the two
  \<^verbatim>\<open>useDisclosure\<close> flags, and the \<^verbatim>\<open>Settings\<close> component, which exists while
  the drawer shows it. Two things are kept from the last render of \<^verbatim>\<open>App\<close>,
  because a write to the ref does not render again: the value passed as \<^verbatim>\<open>disabled\<close>
  to the Search button and the memoised callback. The browser is part of the state: local
  storage, the requests that have been issued and the ones not yet settled.
\<close>

record App_state =
  config :: Config
  query :: string
  sql :: string
  results :: "result list option"
  loading :: bool
  error :: "string option"
  isOpen :: bool
  isSchemaOpen :: bool
  showInfo :: bool
  settings :: "Settings_state option"
  search_disabled :: bool
  callback :: Closure
  localStorage :: "string \<rightharpoonup> string"
  issued :: "SearchQuery list"
  pending :: "SearchQuery list"

section \<open>Start-up and rendering\<close>

text \<open>The operator \<^verbatim>\<open>??\<close> on the result of \<^verbatim>\<open>localStorage.getItem\<close>.\<close>

definition nullish :: "'a option \<Rightarrow> 'a \<Rightarrow> 'a" where
  "nullish v d = (case v of None \<Rightarrow> d | Some x \<Rightarrow> x)"

text \<open>
  \<^verbatim>\<open>useCallback(fn, [query, sql])\<close>: the previous callback is kept when the
  dependencies are the ones it was created with, and replaced otherwise.
\<close>

definition useCallback :: "Closure \<Rightarrow> Closure \<Rightarrow> Closure" where
  "useCallback prev fresh =
     (if closure_query prev = closure_query fresh \<and> closure_sql prev = closure_sql fresh
      then prev else fresh)"

text \<open>
  A render of \<^verbatim>\<open>App\<close> evaluates the \<^verbatim>\<open>disabled\<close> expression of the Search
  button and memoises \<^verbatim>\<open>triggerSearch\<close>. A string is falsy exactly when it is empty.
\<close>

definition render :: "App_state \<Rightarrow> App_state" where
  "render s = s\<lparr>
     search_disabled :=
       (loading s \<or> apiKey (config s) = [] \<or> collectionName (config s) = []),
     callback :=
       useCallback (callback s) \<lparr>closure_query = query s, closure_sql = sql s\<rparr>\<rparr>"

definition Settings_init :: "Config \<Rightarrow> Settings_state" where
  "Settings_init c =
     \<lparr>settings_collectionName = collectionName c, settings_apiKey = apiKey c,
      settings_show = False\<rparr>"

text \<open>
  The first render of \<^verbatim>\<open>App\<close>. The ref holds strings, so the comparisons of its
  members with \<^verbatim>\<open>undefined\<close> in \<^verbatim>\<open>defaultIsOpen\<close> are false and only the
  comparisons with the empty string remain.
\<close>

definition App_init :: "(string \<rightharpoonup> string) \<Rightarrow> App_state" where
  "App_init ls =
     (let c = \<lparr>apiKey = nullish (ls API_KEY_KEY) [],
                collectionName = nullish (ls COLLECTION_NAME_KEY) []\<rparr>;
          defaultIsOpen = (apiKey c = [] \<or> collectionName c = [])
      in \<lparr>config = c, query = [], sql = [], results = Some [], loading = False,
          error = None, isOpen = defaultIsOpen, isSchemaOpen = False, showInfo = False,
          settings = (if defaultIsOpen then Some (Settings_init c) else None),
          search_disabled = (False \<or> apiKey c = [] \<or> collectionName c = []),
          callback = \<lparr>closure_query = [], closure_sql = []\<rparr>,
          localStorage = ls, issued = [], pending = []\<rparr>)"

section \<open>The search call\<close>

text \<open>
  \<^verbatim>\<open>triggerSearch\<close> is an \<^verbatim>\<open>async\<close> function, so it runs in two parts. The
  first part runs inside the click: the guard on the ref, \<^verbatim>\<open>setLoading(true)\<close>,
  \<^verbatim>\<open>setError(null)\<close>, and the call of \<^verbatim>\<open>search\<close> up to its \<^verbatim>\<open>fetch\<close>,
  which issues the request. It returns the request, or \<open>None\<close> when the guard returned.
\<close>

definition triggerSearch_start :: "App_state \<Rightarrow> App_state \<times> SearchQuery option" where
  "triggerSearch_start s =
     (if apiKey (config s) = [] \<or> collectionName (config s) = [] then (s, None)
      else
        (render (s\<lparr>loading := True, error := None\<rparr>),
         Some \<lparr>starpoint_api_key = apiKey (config s),
               starpoint_collection_name = collectionName (config s),
               query_to_embed = Some (closure_query (callback s)),
               query_sql = Some (closure_sql (callback s))\<rparr>))"

text \<open>
  The second part runs when the awaited promise settles: \<^verbatim>\<open>setResults\<close> on a
  response, \<^verbatim>\<open>setError(err.message)\<close> in the \<^verbatim>\<open>catch\<close>, and
  \<^verbatim>\<open>setLoading(false)\<close> in the \<^verbatim>\<open>finally\<close>. A body that parses to a value
  without members makes \<^verbatim>\<open>response.results\<close> throw inside the \<^verbatim>\<open>try\<close>, which is
  the \<open>Inl\<close> case as well.
\<close>

definition triggerSearch_settle :: "Error + QueryResponse \<Rightarrow> App_state \<Rightarrow> App_state" where
  "triggerSearch_settle outcome s =
     render
       (case outcome of
          Inr response \<Rightarrow> s\<lparr>results := response_results response, loading := False\<rparr>
        | Inl err \<Rightarrow> s\<lparr>error := Some (message err), loading := False\<rparr>)"

text \<open>The whole call against a backend that answers at once.\<close>

definition triggerSearch ::
  "(SearchQuery \<Rightarrow> Error + QueryResponse) \<Rightarrow> App_state \<Rightarrow> App_state" where
  "triggerSearch search s =
     (case triggerSearch_start s of
        (s', None) \<Rightarrow> s'
      | (s', Some data) \<Rightarrow> triggerSearch_settle (search data) s')"

section \<open>Events\<close>

text \<open>
  What the user, the storage of the browser and the network can do. The two
  \<^verbatim>\<open>Settings\<close> inputs exist while the component is mounted.

  \<^verbatim>\<open>localStorage.setItem\<close> either stores the value or throws (a store that is full or
  that refuses writes raises \<^verbatim>\<open>QuotaExceededError\<close>). Which of the two happens is
  decided by the browser, so a keystroke carries it.

  \<^verbatim>\<open>ClickSearch\<close> is a click that reaches \<^verbatim>\<open>onClick\<close> of the Search button.
  \<^verbatim>\<open>App\<close> passes \<^verbatim>\<open>disabled\<close> to the \<^verbatim>\<open>Button\<close> of the component library, and
  \<^verbatim>\<open>triggerSearch\<close> does not look at it or at \<^verbatim>\<open>loading\<close>; whether the library
  keeps a click away from \<^verbatim>\<open>onClick\<close> is not written in these sources, so the
  handler below is the callback and nothing more.
\<close>

datatype DOMException = QuotaExceededError

datatype write_result = Stores | Throws

datatype event =
    ChangeQuery string
  | ChangeSql string
  | ClickSettings
  | CloseSettings
  | ChangeApiKey string write_result
  | ChangeCollectionName string write_result
  | ClickShow
  | ClickShowInfo
  | ClickViewSchema
  | CloseSchema
  | ClickSearch
  | Settled nat "Error + QueryResponse"

definition setItem ::
  "write_result \<Rightarrow> (string \<rightharpoonup> string) \<Rightarrow> string \<Rightarrow> string \<Rightarrow> DOMException + (string \<rightharpoonup> string)" where
  "setItem w ls k v =
     (case w of Stores \<Rightarrow> Inr (ls(k \<mapsto> v)) | Throws \<Rightarrow> Inl QuotaExceededError)"

text \<open>
  The two \<^verbatim>\<open>onChange\<close> handlers of \<^verbatim>\<open>Settings\<close>, statement by statement: the
  state setter, the write to the ref, then \<^verbatim>\<open>localStorage.setItem\<close>. Nothing is
  caught, so when the last statement throws the first two have happened.
\<close>

definition onChange_apiKey :: "string \<Rightarrow> write_result \<Rightarrow> App_state \<Rightarrow> App_state" where
  "onChange_apiKey v w s =
     (case settings s of
        None \<Rightarrow> s
      | Some st \<Rightarrow>
          (let s1 = s\<lparr>settings := Some (st\<lparr>settings_apiKey := v\<rparr>)\<rparr>;
               s2 = s1\<lparr>config := (config s1)\<lparr>apiKey := v\<rparr>\<rparr>
           in case setItem w (localStorage s2) API_KEY_KEY v of
                Inl exn \<Rightarrow> s2
              | Inr ls \<Rightarrow> s2\<lparr>localStorage := ls\<rparr>))"

definition onChange_collectionName :: "string \<Rightarrow> write_result \<Rightarrow> App_state \<Rightarrow> App_state" where
  "onChange_collectionName v w s =
     (case settings s of
        None \<Rightarrow> s
      | Some st \<Rightarrow>
          (let s1 = s\<lparr>settings := Some (st\<lparr>settings_collectionName := v\<rparr>)\<rparr>;
               s2 = s1\<lparr>config := (config s1)\<lparr>collectionName := v\<rparr>\<rparr>
           in case setItem w (localStorage s2) COLLECTION_NAME_KEY v of
                Inl exn \<Rightarrow> s2
              | Inr ls \<Rightarrow> s2\<lparr>localStorage := ls\<rparr>))"

definition handleClick :: "App_state \<Rightarrow> App_state" where
  "handleClick s =
     (case settings s of
        None \<Rightarrow> s
      | Some st \<Rightarrow> s\<lparr>settings := Some (st\<lparr>settings_show := \<not> settings_show st\<rparr>)\<rparr>)"

definition onOpen :: "App_state \<Rightarrow> App_state" where
  "onOpen s =
     render (s\<lparr>isOpen := True,
               settings := (case settings s of
                              None \<Rightarrow> Some (Settings_init (config s))
                            | Some st \<Rightarrow> Some st)\<rparr>)"

definition onClose :: "App_state \<Rightarrow> App_state" where
  "onClose s = render (s\<lparr>isOpen := False, settings := None\<rparr>)"

text \<open>
  \<^verbatim>\<open>onClick={triggerSearch}\<close>: the first part of the call, with the request it
  issued recorded as issued and as unsettled.
\<close>

definition onClick_search :: "App_state \<Rightarrow> App_state" where
  "onClick_search s =
     (case triggerSearch_start s of
        (s', None) \<Rightarrow> s'
      | (s', Some data) \<Rightarrow>
          s'\<lparr>issued := issued s' @ [data], pending := pending s' @ [data]\<rparr>)"

definition settled :: "nat \<Rightarrow> Error + QueryResponse \<Rightarrow> App_state \<Rightarrow> App_state" where
  "settled i outcome s =
     (if i < length (pending s)
      then triggerSearch_settle outcome
             (s\<lparr>pending := take i (pending s) @ drop (Suc i) (pending s)\<rparr>)
      else s)"

fun step :: "event \<Rightarrow> App_state \<Rightarrow> App_state" where
  "step (ChangeQuery v) s = render (s\<lparr>query := v\<rparr>)"
| "step (ChangeSql v) s = render (s\<lparr>sql := v\<rparr>)"
| "step ClickSettings s = onOpen s"
| "step CloseSettings s = onClose s"
| "step (ChangeApiKey v w) s = onChange_apiKey v w s"
| "step (ChangeCollectionName v w) s = onChange_collectionName v w s"
| "step ClickShow s = handleClick s"
| "step ClickShowInfo s = render (s\<lparr>showInfo := \<not> showInfo s\<rparr>)"
| "step ClickViewSchema s = render (s\<lparr>isSchemaOpen := True\<rparr>)"
| "step CloseSchema s = render (s\<lparr>isSchemaOpen := False\<rparr>)"
| "step ClickSearch s = onClick_search s"
| "step (Settled i outcome) s = settled i outcome s"

text \<open>A session: the events in the order they happen, from the first render.\<close>

fun run :: "event list \<Rightarrow> App_state \<Rightarrow> App_state" where
  "run [] s = s"
| "run (e # es) s = run es (step e s)"

section \<open>The view\<close>

text \<open>
  Template literals and \<^verbatim>\<open>+\<close> turn a value into a string. The conversion of a
  number and \<^verbatim>\<open>JSON.stringify\<close> belong to the language, and are parameters.
\<close>

definition index :: "result \<Rightarrow> string \<Rightarrow> jsval" where
  "index r k =
     (if k = ''__id'' then JString (result_id r)
      else if k = ''__distance''
      then (case result_distance r of None \<Rightarrow> JUndefined | Some d \<Rightarrow> JNumber d)
      else (case map_of (result_fields r) k of None \<Rightarrow> JUndefined | Some v \<Rightarrow> v))"

definition to_string :: "(real \<Rightarrow> string) \<Rightarrow> jsval \<Rightarrow> string" where
  "to_string num v =
     (case v of
        JString x \<Rightarrow> x
      | JNumber x \<Rightarrow> num x
      | JNull \<Rightarrow> ''null''
      | JUndefined \<Rightarrow> ''undefined'')"

text \<open>The decimal digits of a natural number, for the constant \<^verbatim>\<open>WIDTH\<close>.\<close>

function decimal :: "nat \<Rightarrow> string" where
  "decimal n =
     (if n < 10 then [''0123456789'' ! n]
      else decimal (n div 10) @ [''0123456789'' ! (n mod 10)])"
  by pat_completeness auto
termination
  by (relation "measure (\<lambda>n. n)") auto

declare decimal.simps [simp del]

definition WIDTH :: nat where
  "WIDTH = 320"

record ImageCardProps =
  card_key :: jsval
  photoId :: jsval
  photoUrl :: string
  description :: jsval
  extra :: string
  card_showInfo :: bool

text \<open>The body of \<^verbatim>\<open>results.map\<close>: the props of one \<^verbatim>\<open>ImageCard\<close>.\<close>

definition result_card ::
  "(real \<Rightarrow> string) \<Rightarrow> (result \<Rightarrow> string) \<Rightarrow> bool \<Rightarrow> result \<Rightarrow> ImageCardProps" where
  "result_card num stringify info r =
     (let photo_id = index r ''photo_id'';
          photo_url = ''https://unsplash.com/photos/'' @ to_string num photo_id
                      @ ''/download?w='' @ decimal WIDTH;
          descr = index r ''ai_description''
      in \<lparr>card_key = photo_id, photoId = photo_id, photoUrl = photo_url,
          description = descr, extra = stringify r, card_showInfo = info\<rparr>)"

text \<open>
  What an \<^verbatim>\<open>ImageCard\<close> shows: the image once the card has come into view, the
  heading, text and read-only dump when \<^verbatim>\<open>showInfo\<close> is set, and the image of the
  modal when it is open.
\<close>

record ImageCard_view =
  image_src :: "string option"
  heading :: "jsval option"
  text_body :: "jsval option"
  textarea_value :: "string option"
  modal_src :: "string option"

definition ImageCard :: "bool \<Rightarrow> bool \<Rightarrow> ImageCardProps \<Rightarrow> ImageCard_view" where
  "ImageCard loadArt modalOpen p =
     \<lparr>image_src = (if loadArt then Some (photoUrl p) else None),
      heading = (if card_showInfo p then Some (photoId p) else None),
      text_body = (if card_showInfo p then Some (description p) else None),
      textarea_value = (if card_showInfo p then Some (extra p) else None),
      modal_src = (if modalOpen then Some (photoUrl p) else None)\<rparr>"

text \<open>
  The value of \<^verbatim>\<open>{error && <div>{error}</div>}\<close>. The operator returns its left
  operand when that is falsy, so the value is \<^verbatim>\<open>null\<close> for \<^verbatim>\<open>null\<close>, the
  empty string itself for the empty string, and the element around the message
  otherwise. \<open>node_text\<close> is the text that such a value puts on the page.
\<close>

datatype node = NullNode | TextNode string | DivNode string


definition App_error :: "App_state \<Rightarrow> node" where
  "App_error s =
     (case error s of
        None \<Rightarrow> NullNode
      | Some m \<Rightarrow> if m = [] then TextNode m else DivNode m)"

text \<open>The grid: absent when \<^verbatim>\<open>results\<close> is undefined, one card per record otherwise.\<close>

definition App_wrap ::
  "(real \<Rightarrow> string) \<Rightarrow> (result \<Rightarrow> string) \<Rightarrow> App_state \<Rightarrow> ImageCardProps list option" where
  "App_wrap num stringify s =
     (case results s of
        None \<Rightarrow> None
      | Some rs \<Rightarrow> Some (map (result_card num stringify (showInfo s)) rs))"

text \<open>
  What a mounted \<^verbatim>\<open>Settings\<close> shows: the two inputs with their values, the type
  of the key input, the label of its button, and the two messages for an empty value.
\<close>

record Settings_view =
  apiKey_value :: string
  apiKey_type :: string
  show_label :: string
  apiKey_required :: bool
  collectionName_value :: string
  collectionName_required :: bool
  form_invalid :: bool

definition Settings :: "Settings_state \<Rightarrow> Settings_view" where
  "Settings st =
     (let isError_api = (length (settings_apiKey st) = 0);
          isError_collectionName = (length (settings_collectionName st) = 0)
      in \<lparr>apiKey_value = settings_apiKey st,
          apiKey_type = (if settings_show st then ''text'' else ''password''),
          show_label = (if settings_show st then ''Hide'' else ''Show''),
          apiKey_required = isError_api,
          collectionName_value = settings_collectionName st,
          collectionName_required = isError_collectionName,
          form_invalid = (isError_api \<or> isError_collectionName)\<rparr>)"

text \<open>What \<^verbatim>\<open>App\<close> shows.\<close>

record App_view =
  query_value :: string
  sql_value :: string
  button_disabled :: bool
  spinner :: bool
  error_div :: node
  wrap :: "ImageCardProps list option"
  settings_drawer :: "Settings_view option"
  schema_drawer :: bool

definition App ::
  "(real \<Rightarrow> string) \<Rightarrow> (result \<Rightarrow> string) \<Rightarrow> App_state \<Rightarrow> App_view" where
  "App num stringify s =
     \<lparr>query_value = query s,
      sql_value = sql s,
      button_disabled = search_disabled s,
      spinner = loading s,
      error_div = App_error s,
      wrap = App_wrap num stringify s,
      settings_drawer = (if isOpen s then map_option Settings (settings s) else None),
      schema_drawer = isSchemaOpen s\<rparr>"

section \<open>The backend proxy\<close>

text \<open>
  Modelled from the spec: the backend proxy (the Python package \<^verbatim>\<open>backend\<close> that the
  Dockerfile copies and starts) is not among the sources. The spec says that it receives
  a search request, forwards it to the external vector-search API and returns the
  response verbatim. The model returns the payloads it forwarded and the response it
  gives back; the external API is a parameter.
\<close>

definition proxy :: "(SearchQuery \<Rightarrow> 'response) \<Rightarrow> SearchQuery \<Rightarrow> SearchQuery list \<times> 'response" where
  "proxy external_api request = ([request], external_api request)"

section \<open>Properties of a session\<close>

text \<open>Every request issued so far carries a key and a collection name.\<close>

definition issued_ok :: "App_state \<Rightarrow> bool" where
  "issued_ok s =
     list_all (\<lambda>q. starpoint_api_key q \<noteq> [] \<and> starpoint_collection_name q \<noteq> [])
       (issued s)"

text \<open>The memoised callback holds the query and the filter of the current state.\<close>

definition callback_fresh :: "App_state \<Rightarrow> bool" where
  "callback_fresh s =
     (closure_query (callback s) = query s \<and> closure_sql (callback s) = sql s)"

text \<open>
  The ref, local storage (an absent entry read as the empty string) and the inputs of a
  mounted \<^verbatim>\<open>Settings\<close> hold the same key and the same collection name.
\<close>

definition settings_agree :: "App_state \<Rightarrow> bool" where
  "settings_agree s =
     (apiKey (config s) = nullish (localStorage s API_KEY_KEY) [] \<and>
      collectionName (config s) = nullish (localStorage s COLLECTION_NAME_KEY) [] \<and>
      (case settings s of
         None \<Rightarrow> True
       | Some st \<Rightarrow>
           settings_apiKey st = apiKey (config s) \<and>
           settings_collectionName st = collectionName (config s)))"

text \<open>The inputs of a mounted \<^verbatim>\<open>Settings\<close> display the two members of the ref.\<close>

definition inputs_agree :: "App_state \<Rightarrow> bool" where
  "inputs_agree s =
     (case settings s of
        None \<Rightarrow> True
      | Some st \<Rightarrow>
          apiKey_value (Settings st) = apiKey (config s) \<and>
          collectionName_value (Settings st) = collectionName (config s))"

text \<open>The events of a session in which no \<^verbatim>\<open>localStorage.setItem\<close> threw.\<close>

fun stored :: "event \<Rightarrow> bool" where
  "stored (ChangeApiKey v Throws) = False"
| "stored (ChangeCollectionName v Throws) = False"
| "stored e = True"

definition all_stored :: "event list \<Rightarrow> bool" where
  "all_stored es = list_all stored es"

text \<open>
  At most one request is unsettled, \<^verbatim>\<open>loading\<close> says whether there is one, and
  the Search button is passed \<^verbatim>\<open>disabled\<close> while there is.
\<close>

definition single_flight :: "App_state \<Rightarrow> bool" where
  "single_flight s =
     (length (pending s) \<le> 1 \<and> loading s = (pending s \<noteq> []) \<and>
      (loading s \<longrightarrow> search_disabled s))"

text \<open>
  A session in which no click reaches \<^verbatim>\<open>onClick\<close> of the Search button while the
  button is passed \<^verbatim>\<open>disabled\<close>: what a library that honours the attribute allows.
\<close>

fun honoured :: "event list \<Rightarrow> App_state \<Rightarrow> bool" where
  "honoured [] s = True"
| "honoured (e # es) s =
     ((e = ClickSearch \<longrightarrow> \<not> search_disabled s) \<and> honoured es (step e s))"

section \<open>Example data\<close>

definition stored_settings :: "string \<rightharpoonup> string" where
  "stored_settings = [API_KEY_KEY \<mapsto> ''key'', COLLECTION_NAME_KEY \<mapsto> ''photos'']"

definition road_photo :: result where
  "road_photo =
     \<lparr>result_id = ''7'', result_distance = Some 1,
      result_fields = [(''photo_id'', JString ''abc123''),
                       (''ai_description'', JString ''a road in the forest'')]\<rparr>"

definition lake_photo :: result where
  "lake_photo =
     \<lparr>result_id = ''9'', result_distance = Some 2,
      result_fields = [(''photo_id'', JString ''xyz789''),
                       (''ai_description'', JString ''a lake at dawn'')]\<rparr>"

definition two_photos :: QueryResponse where
  "two_photos =
     \<lparr>collection_id = ''c0'', result_count = 2, response_sql = None,
      response_results = Some [road_photo, lake_photo]\<rparr>"

definition found :: "SearchQuery \<Rightarrow> Error + QueryResponse" where
  "found data = Inr two_photos"

definition offline :: "SearchQuery \<Rightarrow> Error + QueryResponse" where
  "offline data = Inl (Error ''Failed to fetch'')"


definition filled_form :: "event list" where
  "filled_form =
     [ChangeApiKey ''k'' Stores, ChangeCollectionName ''c'' Stores, CloseSettings,
      ChangeQuery ''road'', ChangeSql ''SELECT 1'']"

definition full_store :: "event list" where
  "full_store = [ClickSettings, ChangeApiKey ''k'' Throws]"

definition double_click :: "event list" where
  "double_click = [ClickSearch, ClickSearch]"

definition first_settled :: "event list" where
  "first_settled = double_click @ [Settled 0 (Inr two_photos)]"

definition one_search :: "event list" where
  "one_search = filled_form @ [ClickSearch]"

definition plain_number :: "real \<Rightarrow> string" where
  "plain_number x = decimal (nat \<lfloor>x\<rfloor>)"

definition only_id :: "result \<Rightarrow> string" where
  "only_id r = result_id r"

section \<open>Rendering and handlers: basic facts\<close>

lemma useCallback_fresh: "useCallback prev fresh = fresh"
  by (cases prev; cases fresh) (simp add: useCallback_def)

lemma render_simps [simp]:
  "config (render s) = config s"
  "query (render s) = query s"
  "sql (render s) = sql s"
  "results (render s) = results s"
  "loading (render s) = loading s"
  "error (render s) = error s"
  "isOpen (render s) = isOpen s"
  "isSchemaOpen (render s) = isSchemaOpen s"
  "showInfo (render s) = showInfo s"
  "settings (render s) = settings s"
  "localStorage (render s) = localStorage s"
  "issued (render s) = issued s"
  "pending (render s) = pending s"
  "search_disabled (render s) =
     (loading s \<or> apiKey (config s) = [] \<or> collectionName (config s) = [])"
  "callback (render s) = \<lparr>closure_query = query s, closure_sql = sql s\<rparr>"
  by (simp_all add: render_def useCallback_fresh)

lemmas handler_defs =
  onOpen_def onClose_def onChange_apiKey_def onChange_collectionName_def
  handleClick_def onClick_search_def settled_def triggerSearch_start_def
  triggerSearch_settle_def setItem_def Let_def

lemmas example_defs =
  App_init_def Let_def nullish_def Settings_init_def API_KEY_KEY_def
  COLLECTION_NAME_KEY_def stored_settings_def

text \<open>The two outcomes of a call that passes the guard, as one update of the state.\<close>

lemma triggerSearch_failure:
  assumes "triggerSearch_start s = (s1, Some data)" and "search data = Inl e"
  shows "triggerSearch search s = render (s\<lparr>error := Some (message e), loading := False\<rparr>)"
  using assms
  by (auto simp: triggerSearch_def triggerSearch_start_def triggerSearch_settle_def
      render_def useCallback_fresh split: if_splits)

lemma triggerSearch_success:
  assumes "triggerSearch_start s = (s1, Some data)" and "search data = Inr r"
  shows "triggerSearch search s =
     render (s\<lparr>error := None, results := response_results r, loading := False\<rparr>)"
  using assms
  by (auto simp: triggerSearch_def triggerSearch_start_def triggerSearch_settle_def
      render_def useCallback_fresh split: if_splits)

lemma start_stored:
  "triggerSearch_start (App_init stored_settings) =
     (fst (triggerSearch_start (App_init stored_settings)),
      Some \<lparr>starpoint_api_key = ''key'', starpoint_collection_name = ''photos'',
            query_to_embed = Some [], query_sql = Some []\<rparr>)"
  by (simp add: triggerSearch_start_def example_defs)

section \<open>The guard on the settings\<close>

lemma issued_step:
  "issued (step e s) = issued s \<or>
   (\<exists>d. starpoint_api_key d \<noteq> [] \<and> starpoint_collection_name d \<noteq> [] \<and>
        issued (step e s) = issued s @ [d])"
  by (cases e)
     (auto simp: handler_defs split: option.splits sum.splits write_result.splits)

lemma issued_ok_step: "issued_ok s \<Longrightarrow> issued_ok (step e s)"
  using issued_step [of e s] by (auto simp: issued_ok_def)

lemma issued_ok_run: "issued_ok s \<Longrightarrow> issued_ok (run es s)"
  by (induction es arbitrary: s) (simp_all add: issued_ok_step)

lemma issued_ok_init: "issued_ok (App_init ls)"
  by (simp add: issued_ok_def App_init_def Let_def)

text \<open>
  Claim C1. In a state whose key or collection name is empty, \<^verbatim>\<open>triggerSearch\<close>
  issues no request and returns the state as it was, whatever the backend would have
  answered, and so does a click on the Search button. In every session, every request
  that has been issued carries a non-empty key and a non-empty collection name.
\<close>

theorem search_needs_key_and_collection:
  "(apiKey (config s) = [] \<or> collectionName (config s) = [] \<longrightarrow>
      triggerSearch_start s = (s, None) \<and> triggerSearch search s = s \<and>
      step ClickSearch s = s)
   \<and> (\<forall>q \<in> set (issued (run es (App_init ls))).
         starpoint_api_key q \<noteq> [] \<and> starpoint_collection_name q \<noteq> [])"
proof -
  have "issued_ok (run es (App_init ls))"
    by (rule issued_ok_run [OF issued_ok_init])
  then have "\<forall>q \<in> set (issued (run es (App_init ls))).
         starpoint_api_key q \<noteq> [] \<and> starpoint_collection_name q \<noteq> []"
    by (simp add: issued_ok_def list_all_iff)
  moreover have "apiKey (config s) = [] \<or> collectionName (config s) = [] \<longrightarrow>
      triggerSearch_start s = (s, None) \<and> triggerSearch search s = s \<and>
      step ClickSearch s = s"
    by (simp add: triggerSearch_start_def triggerSearch_def onClick_search_def)
  ultimately show ?thesis by blast
qed

theorem search_needs_key_and_collection_witness:
  "apiKey (config (App_init Map.empty)) = []
   \<and> triggerSearch_start (App_init Map.empty) = (App_init Map.empty, None)
   \<and> triggerSearch found (App_init Map.empty) = App_init Map.empty
   \<and> step ClickSearch (App_init Map.empty) = App_init Map.empty
   \<and> issued (run one_search (App_init Map.empty)) =
       [\<lparr>starpoint_api_key = ''k'', starpoint_collection_name = ''c'',
          query_to_embed = Some ''road'', query_sql = Some ''SELECT 1''\<rparr>]
   \<and> issued_ok (run one_search (App_init Map.empty))"
proof -
  have empty: "apiKey (config (App_init Map.empty)) = []"
    by (simp add: App_init_def Let_def nullish_def)
  have sent: "issued (run one_search (App_init Map.empty)) =
       [\<lparr>starpoint_api_key = ''k'', starpoint_collection_name = ''c'',
          query_to_embed = Some ''road'', query_sql = Some ''SELECT 1''\<rparr>]"
    by (simp add: one_search_def filled_form_def example_defs onChange_apiKey_def
        onChange_collectionName_def onClose_def onClick_search_def
        triggerSearch_start_def setItem_def)
  show ?thesis
    using empty sent
      search_needs_key_and_collection
        [of "App_init Map.empty" found one_search Map.empty]
    by (simp add: issued_ok_def list_all_iff)
qed

section \<open>Errors\<close>



section \<open>The request\<close>

lemma callback_fresh_step: "callback_fresh s \<Longrightarrow> callback_fresh (step e s)"
  by (cases e)
     (auto simp: callback_fresh_def handler_defs
        split: option.splits sum.splits write_result.splits)

lemma callback_fresh_run: "callback_fresh s \<Longrightarrow> callback_fresh (run es s)"
  by (induction es arbitrary: s) (simp_all add: callback_fresh_step)

lemma callback_fresh_init: "callback_fresh (App_init ls)"
  by (simp add: callback_fresh_def App_init_def Let_def)

text \<open>
  Claim C3. In every state that a session reaches with a key and a collection name, the
  request that \<^verbatim>\<open>triggerSearch\<close> builds has the key and the collection name of the
  ref, the text of the query field and the text of the filter field, the last two in the
  optional members; the two fields display those texts, and a click on the enabled
  button adds exactly this request to the ones issued.
\<close>

theorem search_query_from_form_state:
  assumes "s = run es (App_init ls)"
    and "apiKey (config s) \<noteq> []" and "collectionName (config s) \<noteq> []"
  shows "snd (triggerSearch_start s) =
           Some \<lparr>starpoint_api_key = apiKey (config s),
                 starpoint_collection_name = collectionName (config s),
                 query_to_embed = Some (query s),
                 query_sql = Some (sql s)\<rparr>
         \<and> query_value (App num stringify s) = query s
         \<and> sql_value (App num stringify s) = sql s
         \<and> (\<not> search_disabled s \<longrightarrow>
              issued (step ClickSearch s) = issued s @
                [\<lparr>starpoint_api_key = apiKey (config s),
                  starpoint_collection_name = collectionName (config s),
                  query_to_embed = Some (query s),
                  query_sql = Some (sql s)\<rparr>])"
proof -
  have "callback_fresh s"
    unfolding assms(1) by (rule callback_fresh_run [OF callback_fresh_init])
  then show ?thesis
    using assms(2,3)
    by (simp add: callback_fresh_def triggerSearch_start_def onClick_search_def App_def)
qed

lemma filled_form_state:
  "config (run filled_form (App_init Map.empty)) = \<lparr>apiKey = ''k'', collectionName = ''c''\<rparr>"
  "query (run filled_form (App_init Map.empty)) = ''road''"
  "sql (run filled_form (App_init Map.empty)) = ''SELECT 1''"
  "search_disabled (run filled_form (App_init Map.empty)) = False"
  "issued (run filled_form (App_init Map.empty)) = []"
  "loading (run filled_form (App_init Map.empty)) = False"
  "pending (run filled_form (App_init Map.empty)) = []"
  by (simp_all add: filled_form_def example_defs onChange_apiKey_def
        onChange_collectionName_def onClose_def setItem_def)

theorem search_query_from_form_state_witness:
  "snd (triggerSearch_start (run filled_form (App_init Map.empty))) =
     Some \<lparr>starpoint_api_key = ''k'', starpoint_collection_name = ''c'',
           query_to_embed = Some ''road'', query_sql = Some ''SELECT 1''\<rparr>
   \<and> issued (step ClickSearch (run filled_form (App_init Map.empty))) =
     [\<lparr>starpoint_api_key = ''k'', starpoint_collection_name = ''c'',
           query_to_embed = Some ''road'', query_sql = Some ''SELECT 1''\<rparr>]"
  using search_query_from_form_state
    [of "run filled_form (App_init Map.empty)" filled_form Map.empty plain_number only_id]
  by (simp add: filled_form_state)

section \<open>The settings\<close>

lemma inputs_agree_step: "inputs_agree s \<Longrightarrow> inputs_agree (step e s)"
  by (cases e)
     (auto simp: inputs_agree_def handler_defs Settings_def Settings_init_def
        split: option.splits sum.splits write_result.splits)

lemma inputs_agree_run: "inputs_agree s \<Longrightarrow> inputs_agree (run es s)"
  by (induction es arbitrary: s) (simp_all add: inputs_agree_step)

lemma inputs_agree_init: "inputs_agree (App_init ls)"
  by (simp add: inputs_agree_def App_init_def Let_def Settings_init_def Settings_def)

lemma settings_agree_step: "settings_agree s \<Longrightarrow> stored e \<Longrightarrow> settings_agree (step e s)"
proof (cases e)
  case (ChangeApiKey v w)
  assume "settings_agree s" and "stored e"
  then show ?thesis
    unfolding ChangeApiKey
    by (cases w)
       (auto simp: settings_agree_def onChange_apiKey_def setItem_def Let_def nullish_def
          API_KEY_KEY_def COLLECTION_NAME_KEY_def split: option.splits)
next
  case (ChangeCollectionName v w)
  assume "settings_agree s" and "stored e"
  then show ?thesis
    unfolding ChangeCollectionName
    by (cases w)
       (auto simp: settings_agree_def onChange_collectionName_def setItem_def Let_def
          nullish_def API_KEY_KEY_def COLLECTION_NAME_KEY_def split: option.splits)
qed (auto simp: settings_agree_def handler_defs Settings_init_def
       split: option.splits sum.splits)

lemma settings_agree_run:
  "settings_agree s \<Longrightarrow> all_stored es \<Longrightarrow> settings_agree (run es s)"
  by (induction es arbitrary: s) (simp_all add: all_stored_def settings_agree_step)

lemma settings_agree_init: "settings_agree (App_init ls)"
  by (simp add: settings_agree_def App_init_def Let_def Settings_init_def)

lemma opened_settings:
  "settings (step ClickSettings (App_init stored_settings)) =
     Some (Settings_init \<lparr>apiKey = ''key'', collectionName = ''photos''\<rparr>)"
  by (simp add: onOpen_def example_defs)

text \<open>
  Claim C4, as amended. The first render reads the ref from the local-storage entries
  \<^verbatim>\<open>api_key\<close> and \<^verbatim>\<open>collection_name\<close>. A keystroke in either input of the
  mounted \<^verbatim>\<open>Settings\<close> puts the typed value into the ref and into the value the
  input displays, and calls \<^verbatim>\<open>localStorage.setItem\<close> with the key of that input:
  when the call stores, the entry is the typed value as well, and when it throws, local
  storage is what it was. In every state of every session the mounted inputs display
  the members of the ref, and in every session in which no write threw, both members
  equal their local-storage entries, an absent entry read as the empty string.
\<close>

theorem settings_persisted_when_stored:
  "config (App_init ls) =
       \<lparr>apiKey = nullish (ls ''api_key'') [],
        collectionName = nullish (ls ''collection_name'') []\<rparr>
   \<and> (settings s = Some st \<longrightarrow>
        apiKey (config (step (ChangeApiKey v w) s)) = v \<and>
        map_option (apiKey_value \<circ> Settings) (settings (step (ChangeApiKey v w) s)) = Some v \<and>
        localStorage (step (ChangeApiKey v Stores) s) ''api_key'' = Some v \<and>
        localStorage (step (ChangeApiKey v Throws) s) = localStorage s \<and>
        collectionName (config (step (ChangeCollectionName v w) s)) = v \<and>
        map_option (collectionName_value \<circ> Settings)
          (settings (step (ChangeCollectionName v w) s)) = Some v \<and>
        localStorage (step (ChangeCollectionName v Stores) s) ''collection_name'' = Some v \<and>
        localStorage (step (ChangeCollectionName v Throws) s) = localStorage s)
   \<and> inputs_agree (run es (App_init ls))
   \<and> (all_stored es \<longrightarrow> settings_agree (run es (App_init ls)))"
proof -
  have "config (App_init ls) =
       \<lparr>apiKey = nullish (ls ''api_key'') [],
        collectionName = nullish (ls ''collection_name'') []\<rparr>"
    by (simp add: App_init_def Let_def API_KEY_KEY_def COLLECTION_NAME_KEY_def)
  moreover have "settings s = Some st \<longrightarrow>
        apiKey (config (step (ChangeApiKey v w) s)) = v \<and>
        map_option (apiKey_value \<circ> Settings) (settings (step (ChangeApiKey v w) s)) = Some v \<and>
        localStorage (step (ChangeApiKey v Stores) s) ''api_key'' = Some v \<and>
        localStorage (step (ChangeApiKey v Throws) s) = localStorage s \<and>
        collectionName (config (step (ChangeCollectionName v w) s)) = v \<and>
        map_option (collectionName_value \<circ> Settings)
          (settings (step (ChangeCollectionName v w) s)) = Some v \<and>
        localStorage (step (ChangeCollectionName v Stores) s) ''collection_name'' = Some v \<and>
        localStorage (step (ChangeCollectionName v Throws) s) = localStorage s"
    by (cases w)
       (simp_all add: onChange_apiKey_def onChange_collectionName_def setItem_def Settings_def
          Let_def API_KEY_KEY_def COLLECTION_NAME_KEY_def)
  moreover have "inputs_agree (run es (App_init ls))"
    by (rule inputs_agree_run [OF inputs_agree_init])
  moreover have "all_stored es \<longrightarrow> settings_agree (run es (App_init ls))"
    using settings_agree_run [OF settings_agree_init] by blast
  ultimately show ?thesis by blast
qed

theorem settings_persisted_when_stored_witness:
  "config (App_init stored_settings) = \<lparr>apiKey = ''key'', collectionName = ''photos''\<rparr>
   \<and> apiKey (config (step (ChangeApiKey ''k'' Stores)
        (step ClickSettings (App_init stored_settings)))) = ''k''
   \<and> map_option (apiKey_value \<circ> Settings)
        (settings (step (ChangeApiKey ''k'' Stores)
          (step ClickSettings (App_init stored_settings)))) = Some ''k''
   \<and> localStorage (step (ChangeApiKey ''k'' Stores)
        (step ClickSettings (App_init stored_settings))) ''api_key'' = Some ''k''
   \<and> all_stored filled_form
   \<and> config (run filled_form (App_init Map.empty)) = \<lparr>apiKey = ''k'', collectionName = ''c''\<rparr>
   \<and> settings_agree (run filled_form (App_init Map.empty))
   \<and> inputs_agree (run filled_form (App_init Map.empty))"
proof -
  have a: "all_stored filled_form"
    by (simp add: all_stored_def filled_form_def)
  show ?thesis
    using a opened_settings
      settings_persisted_when_stored
        [of stored_settings "step ClickSettings (App_init stored_settings)"
            "Settings_init \<lparr>apiKey = ''key'', collectionName = ''photos''\<rparr>" "''k''" Stores
            filled_form]
      settings_persisted_when_stored
        [of Map.empty "step ClickSettings (App_init stored_settings)"
            "Settings_init \<lparr>apiKey = ''key'', collectionName = ''photos''\<rparr>" "''k''" Stores
            filled_form]
    by (simp add: stored_settings_def nullish_def API_KEY_KEY_def COLLECTION_NAME_KEY_def
         filled_form_state)
qed

text \<open>
  Claim C4 as it is written fails when \<^verbatim>\<open>localStorage.setItem\<close> throws: with the
  settings stored and the drawer opened, a keystroke in the key input whose write throws
  leaves the typed value in the ref and in the input, and the old value in local storage.
\<close>

theorem keystroke_not_persisted_when_setItem_throws:
  "apiKey (config (run full_store (App_init stored_settings))) = ''k''
   \<and> map_option (apiKey_value \<circ> Settings)
        (settings (run full_store (App_init stored_settings))) = Some ''k''
   \<and> localStorage (run full_store (App_init stored_settings)) ''api_key'' = Some ''key''
   \<and> \<not> settings_agree (run full_store (App_init stored_settings))"
  by (simp add: full_store_def onOpen_def onChange_apiKey_def setItem_def Settings_def
      settings_agree_def example_defs)

section \<open>The proxy\<close>

text \<open>
  Claim C5. For every request, the proxy forwards exactly that request to the external
  API and returns the response of the external API to it, unchanged.
\<close>

theorem proxy_returns_response_verbatim:
  "snd (proxy external_api request) = external_api request
   \<and> fst (proxy external_api request) = [request]"
  by (simp add: proxy_def)

section \<open>One request at a time\<close>

lemma run_append: "run (es @ fs) s = run fs (run es s)"
  by (induction es arbitrary: s) simp_all

text \<open>
  The two halves of the call do what the flag is for: a call that issues a request
  leaves \<^verbatim>\<open>loading\<close> true, and the settling of a request leaves it false, with a
  response and with an error alike.
\<close>

lemma loading_around_request:
  "snd (triggerSearch_start s) = Some data \<Longrightarrow> loading (fst (triggerSearch_start s))"
  "\<not> loading (triggerSearch_settle outcome s)"
  by (auto simp: triggerSearch_start_def triggerSearch_settle_def split: if_splits sum.splits)

text \<open>
  The expression passed as \<^verbatim>\<open>disabled\<close> would keep the requests apart: in a session
  in which no click reaches \<^verbatim>\<open>onClick\<close> while the button is passed
  \<^verbatim>\<open>disabled\<close>, at most one request is unsettled and \<^verbatim>\<open>loading\<close> is true
  exactly while one is.
\<close>

lemma single_flight_step:
  "single_flight s \<Longrightarrow> (e = ClickSearch \<longrightarrow> \<not> search_disabled s) \<Longrightarrow> single_flight (step e s)"
proof (cases e)
  case ClickSearch
  assume "single_flight s" and "e = ClickSearch \<longrightarrow> \<not> search_disabled s"
  then show ?thesis
    unfolding ClickSearch
    by (auto simp: single_flight_def onClick_search_def triggerSearch_start_def)
next
  case (Settled i outcome)
  assume "single_flight s"
  then show ?thesis
    unfolding Settled
    by (cases "pending s")
       (auto simp: single_flight_def settled_def triggerSearch_settle_def split: sum.splits)
qed (auto simp: single_flight_def handler_defs
       split: option.splits sum.splits write_result.splits)

lemma single_flight_run: "single_flight s \<Longrightarrow> honoured es s \<Longrightarrow> single_flight (run es s)"
  by (induction es arbitrary: s) (simp_all add: single_flight_step)

lemma single_flight_init: "single_flight (App_init ls)"
  by (simp add: single_flight_def App_init_def Let_def)

text \<open>
  Claim C6 asks that at most one search request is in flight at a time and that no
  search begins while \<^verbatim>\<open>loading\<close> is true. \<^verbatim>\<open>triggerSearch\<close> does not test
  \<^verbatim>\<open>loading\<close>: with the settings stored, a first click leaves \<^verbatim>\<open>loading\<close> true
  and the button passed \<^verbatim>\<open>disabled\<close>, and a second click that reaches
  \<^verbatim>\<open>onClick\<close> before the first request settles issues a second request, so two
  requests are in flight; when the first of them settles, \<^verbatim>\<open>loading\<close> is false
  while the second is still in flight.
\<close>

theorem second_click_issues_second_request:
  "loading (step ClickSearch (App_init stored_settings))
   \<and> search_disabled (step ClickSearch (App_init stored_settings))
   \<and> pending (step ClickSearch (App_init stored_settings)) =
       [\<lparr>starpoint_api_key = ''key'', starpoint_collection_name = ''photos'',
         query_to_embed = Some [], query_sql = Some []\<rparr>]
   \<and> pending (run double_click (App_init stored_settings)) =
       [\<lparr>starpoint_api_key = ''key'', starpoint_collection_name = ''photos'',
         query_to_embed = Some [], query_sql = Some []\<rparr>,
        \<lparr>starpoint_api_key = ''key'', starpoint_collection_name = ''photos'',
         query_to_embed = Some [], query_sql = Some []\<rparr>]
   \<and> length (issued (run double_click (App_init stored_settings))) = 2
   \<and> \<not> loading (run first_settled (App_init stored_settings))
   \<and> length (pending (run first_settled (App_init stored_settings))) = 1"
  by (simp add: first_settled_def double_click_def onClick_search_def
      triggerSearch_start_def settled_def triggerSearch_settle_def example_defs)

section \<open>Results and cards\<close>

lemma decimal_WIDTH: "decimal WIDTH = ''320''"
  by (simp add: WIDTH_def decimal.simps)

text \<open>
  Claim C7. When the call passes the guard and \<^verbatim>\<open>search\<close> returns a response,
  the \<^verbatim>\<open>results\<close> state becomes the \<^verbatim>\<open>results\<close> of the response, and the grid
  holds the card of each record, one per record and in the order of the response. A
  record answers \<^verbatim>\<open>__id\<close> with its identifier, a string, and \<^verbatim>\<open>__distance\<close> with
  its distance, a number when it is present.
\<close>

theorem results_shown_in_order:
  assumes "triggerSearch_start s = (s1, Some data)" and "search data = Inr r"
  shows "results (triggerSearch search s) = response_results r
       \<and> wrap (App num stringify (triggerSearch search s)) =
           map_option (map (result_card num stringify (showInfo s))) (response_results r)
       \<and> (\<forall>rs. response_results r = Some rs \<longrightarrow>
            map_option length (wrap (App num stringify (triggerSearch search s))) =
              Some (length rs)
            \<and> (\<forall>i < length rs.
                 map_option (\<lambda>cs. cs ! i) (wrap (App num stringify (triggerSearch search s))) =
                   Some (result_card num stringify (showInfo s) (rs ! i))))
       \<and> index x ''__id'' = JString (result_id x)
       \<and> index x ''__distance'' =
           (case result_distance x of None \<Rightarrow> JUndefined | Some d \<Rightarrow> JNumber d)"
  using assms triggerSearch_success [of s s1 data search r]
  by (simp add: App_def App_wrap_def index_def split: option.splits)

theorem results_shown_in_order_witness:
  "results (triggerSearch found (App_init stored_settings)) = Some [road_photo, lake_photo]
   \<and> map_option (map photoUrl)
        (wrap (App plain_number only_id (triggerSearch found (App_init stored_settings)))) =
      Some [''https://unsplash.com/photos/abc123/download?w=320'',
            ''https://unsplash.com/photos/xyz789/download?w=320'']
   \<and> index road_photo ''__id'' = JString ''7''
   \<and> index road_photo ''__distance'' = JNumber 1"
  using results_shown_in_order
    [OF start_stored, of found two_photos plain_number only_id road_photo]
  by (simp add: found_def two_photos_def result_card_def Let_def index_def to_string_def
       road_photo_def lake_photo_def decimal_WIDTH)

text \<open>
  Claim C8. When the call passes the guard and \<^verbatim>\<open>search\<close> throws, the
  \<^verbatim>\<open>results\<close> state and the grid are what they were before the call: the state after
  the call is the state before it with \<^verbatim>\<open>error\<close> set to the message and
  \<^verbatim>\<open>loading\<close> false, rendered again. The settling of a request with an error leaves
  \<^verbatim>\<open>results\<close> alone in every state.
\<close>

theorem failed_search_keeps_results:
  assumes "triggerSearch_start s = (s1, Some data)" and "search data = Inl e"
  shows "results (triggerSearch search s) = results s
       \<and> wrap (App num stringify (triggerSearch search s)) = wrap (App num stringify s)
       \<and> triggerSearch search s = render (s\<lparr>error := Some (message e), loading := False\<rparr>)
       \<and> config (triggerSearch search s) = config s
       \<and> query (triggerSearch search s) = query s
       \<and> sql (triggerSearch search s) = sql s
       \<and> isOpen (triggerSearch search s) = isOpen s
       \<and> isSchemaOpen (triggerSearch search s) = isSchemaOpen s
       \<and> showInfo (triggerSearch search s) = showInfo s
       \<and> settings (triggerSearch search s) = settings s
       \<and> localStorage (triggerSearch search s) = localStorage s
       \<and> results (step (Settled i (Inl e)) s) = results s"
  using assms triggerSearch_failure [of s s1 data search e]
  by (simp add: App_def App_wrap_def settled_def triggerSearch_settle_def
      split: option.splits)

theorem failed_search_keeps_results_witness:
  "results (triggerSearch offline (triggerSearch found (App_init stored_settings))) =
     Some [road_photo, lake_photo]
   \<and> error (triggerSearch offline (triggerSearch found (App_init stored_settings))) =
     Some ''Failed to fetch''
   \<and> loading (triggerSearch offline (triggerSearch found (App_init stored_settings))) = False"
proof -
  have r: "triggerSearch found (App_init stored_settings) =
      render ((App_init stored_settings)
        \<lparr>error := None, results := Some [road_photo, lake_photo], loading := False\<rparr>)"
    using triggerSearch_success [OF start_stored, of found two_photos]
    by (simp add: found_def two_photos_def)
  have st: "triggerSearch_start (triggerSearch found (App_init stored_settings)) =
     (fst (triggerSearch_start (triggerSearch found (App_init stored_settings))),
      Some \<lparr>starpoint_api_key = ''key'', starpoint_collection_name = ''photos'',
            query_to_embed = Some [], query_sql = Some []\<rparr>)"
    unfolding r by (simp add: triggerSearch_start_def example_defs)
  show ?thesis
    using failed_search_keeps_results
      [OF st, of offline "Error ''Failed to fetch''" plain_number only_id 0]
    by (simp add: offline_def r)
qed

text \<open>
  Claim C9. The card of a record has the URL
  \<^verbatim>\<open>"https://unsplash.com/photos/" + photo_id + "/download?w=320"\<close>, where
  \<^verbatim>\<open>photo_id\<close> is the member of that name of the record, converted to a string as
  \<^verbatim>\<open>+\<close> does (the string itself when it is one). The same member is the key of the
  card and its \<^verbatim>\<open>photoId\<close>, which the card shows as its heading, and the member
  \<^verbatim>\<open>ai_description\<close> is its description, which the card shows as its text; heading
  and text are shown while the image information is switched on. The image of the card
  loads from the URL.
\<close>

theorem card_from_photo_id:
  "photoUrl (result_card num stringify info r) =
     ''https://unsplash.com/photos/'' @ to_string num (index r ''photo_id'')
       @ ''/download?w=320''
   \<and> (index r ''photo_id'' = JString p \<longrightarrow>
        photoUrl (result_card num stringify info r) =
          ''https://unsplash.com/photos/'' @ p @ ''/download?w=320'')
   \<and> card_key (result_card num stringify info r) = index r ''photo_id''
   \<and> photoId (result_card num stringify info r) = index r ''photo_id''
   \<and> description (result_card num stringify info r) = index r ''ai_description''
   \<and> heading (ImageCard loadArt modalOpen (result_card num stringify info r)) =
       (if info then Some (index r ''photo_id'') else None)
   \<and> text_body (ImageCard loadArt modalOpen (result_card num stringify info r)) =
       (if info then Some (index r ''ai_description'') else None)
   \<and> image_src (ImageCard True modalOpen (result_card num stringify info r)) =
       Some (photoUrl (result_card num stringify info r))"
  by (simp add: result_card_def Let_def decimal_WIDTH ImageCard_def to_string_def)

theorem card_from_photo_id_witness:
  "index road_photo ''photo_id'' = JString ''abc123''
   \<and> photoUrl (result_card plain_number only_id True road_photo) =
       ''https://unsplash.com/photos/abc123/download?w=320''
   \<and> card_key (result_card plain_number only_id True road_photo) = JString ''abc123''
   \<and> heading (ImageCard True False (result_card plain_number only_id True road_photo)) =
       Some (JString ''abc123'')
   \<and> text_body (ImageCard True False (result_card plain_number only_id True road_photo)) =
       Some (JString ''a road in the forest'')"
proof -
  have p: "index road_photo ''photo_id'' = JString ''abc123''"
    and d: "index road_photo ''ai_description'' = JString ''a road in the forest''"
    by (simp_all add: index_def road_photo_def)
  show ?thesis
    using p d card_from_photo_id
      [of plain_number only_id True road_photo "''abc123''" True False]
    by (simp add: to_string_def)
qed

section \<open>The settings drawer at start-up\<close>

text \<open>
  Claim C10. At the first render the settings drawer is open exactly when the
  local-storage entry \<^verbatim>\<open>api_key\<close> or the entry \<^verbatim>\<open>collection_name\<close> is absent
  or the empty string; the ref holds the stored strings, and the empty string for an
  absent entry.
\<close>

theorem settings_drawer_open_at_startup:
  "isOpen (App_init ls) =
     (ls ''api_key'' = None \<or> ls ''api_key'' = Some [] \<or>
      ls ''collection_name'' = None \<or> ls ''collection_name'' = Some [])
   \<and> apiKey (config (App_init ls)) =
       (case ls ''api_key'' of None \<Rightarrow> [] | Some v \<Rightarrow> v)
   \<and> collectionName (config (App_init ls)) =
       (case ls ''collection_name'' of None \<Rightarrow> [] | Some v \<Rightarrow> v)
   \<and> (settings_drawer (App num stringify (App_init ls)) \<noteq> None) = isOpen (App_init ls)"
  by (auto simp: App_init_def Let_def nullish_def API_KEY_KEY_def COLLECTION_NAME_KEY_def
       App_def split: option.splits)

theorem settings_drawer_open_at_startup_witness:
  "isOpen (App_init Map.empty)
   \<and> \<not> isOpen (App_init stored_settings)
   \<and> isOpen (App_init [''api_key'' \<mapsto> ''key''])
   \<and> isOpen (App_init [''api_key'' \<mapsto> ''key'', ''collection_name'' \<mapsto> []])
   \<and> collectionName (config (App_init [''api_key'' \<mapsto> ''key''])) = []"
  using settings_drawer_open_at_startup [of Map.empty plain_number only_id]
    settings_drawer_open_at_startup [of stored_settings plain_number only_id]
    settings_drawer_open_at_startup [of "[''api_key'' \<mapsto> ''key'']" plain_number only_id]
    settings_drawer_open_at_startup
      [of "[''api_key'' \<mapsto> ''key'', ''collection_name'' \<mapsto> []]" plain_number only_id]
  by (simp add: stored_settings_def API_KEY_KEY_def COLLECTION_NAME_KEY_def)

end
